theory Spec2Isabelle
  imports Main
begin

section \<open>Go values used by package ddblock\<close>

text \<open>
  The package under verification is \<^verbatim>\<open>ddblock\<close>: a mutex whose lock record lives in a
  DynamoDB table. Its functions talk to the AWS SDK, read the wall clock and start one
  goroutine; all three are made explicit here. The clock reading of every call is an
  argument, the table is a value that is passed through, and the goroutine is a step
  function that is driven by events.
\<close>

subsection \<open>Errors and panics\<close>

text \<open>
  An error returned by the SDK either implements \<^verbatim>\<open>awserr.Error\<close> (it has a code and a
  message) or it does not. The package's own sentinel \<^verbatim>\<open>ErrConflict\<close> is a value made by
  \<^verbatim>\<open>errors.New\<close>; Go compares such values by identity, so it is a constructor of its
  own and no SDK error is equal to it. The Go value \<^verbatim>\<open>nil\<close> is \<open>None\<close>.
\<close>

datatype sdk_error =
    AwsErr string string
  | NonAwsErr string

datatype go_error =
    FromSdk sdk_error
  | ErrConflict

datatype panic_value =
    PanicError go_error
  | PanicString string

fun IsAquireError :: "go_error option \<Rightarrow> bool" where
  "IsAquireError (Some (FromSdk (AwsErr code msg))) = (code = ''ConditionalCheckFailedException'')"
| "IsAquireError _ = False"

subsection \<open>Time\<close>

text \<open>
  A \<^verbatim>\<open>time.Time\<close> is modelled by its number of nanoseconds since the Unix epoch, an
  unbounded integer; a \<^verbatim>\<open>time.Duration\<close> is a number of nanoseconds. \<^verbatim>\<open>UnixNano\<close> returns
  an \<^verbatim>\<open>int64\<close>: outside the 64-bit range the value wraps around.
\<close>

type_synonym time = int
type_synonym duration = int

definition Add :: "time \<Rightarrow> duration \<Rightarrow> time" where
  "Add t d = t + d"

definition UnixNano :: "time \<Rightarrow> int" where
  "UnixNano t = (t + 2 ^ 63) mod 2 ^ 64 - 2 ^ 63"

definition Minute :: duration where
  "Minute = 60 * 1000000000"

subsection \<open>Decimal rendering and reading of integers\<close>

text \<open>
  \<^verbatim>\<open>strconv.FormatInt(x, 10)\<close> and \<^verbatim>\<open>fmt.Sprintf("%d", x)\<close> both give the decimal digits of
  \<open>x\<close>, with a leading minus sign for a negative number.
\<close>

definition digit :: "nat \<Rightarrow> char" where
  "digit d = char_of (48 + d)"

function digits :: "nat \<Rightarrow> string" where
  "digits n = (if n < 10 then [digit n] else digits (n div 10) @ [digit (n mod 10)])"
  by pat_completeness auto
termination
  by (relation "measure (\<lambda>n. n)") auto

definition FormatInt :: "int \<Rightarrow> string" where
  "FormatInt i = (if i < 0 then CHR ''-'' # digits (nat (- i)) else digits (nat i))"

text \<open>The store reads a number attribute back from its decimal text.\<close>

definition is_digit :: "char \<Rightarrow> bool" where
  "is_digit c = (48 \<le> (of_char c :: nat) \<and> (of_char c :: nat) \<le> 57)"

fun parse_digits :: "nat \<Rightarrow> string \<Rightarrow> nat option" where
  "parse_digits acc [] = Some acc"
| "parse_digits acc (c # cs) =
     (if is_digit c then parse_digits (acc * 10 + (of_char c - 48)) cs else None)"

definition parse_nat :: "string \<Rightarrow> nat option" where
  "parse_nat s = (if s = [] then None else parse_digits 0 s)"

fun parse_int :: "string \<Rightarrow> int option" where
  "parse_int [] = None"
| "parse_int (c # cs) =
     (if c = CHR ''-'' then map_option (\<lambda>n. - int n) (parse_nat cs)
      else map_option int (parse_nat (c # cs)))"

declare digits.simps [simp del]

section \<open>The DynamoDB table\<close>

text \<open>
  The table is the external store. What the package relies on is modelled: an item is a
  map from attribute names to values, the table's key attribute is \<^verbatim>\<open>name\<close>, and
  \<^verbatim>\<open>PutItem\<close> and \<^verbatim>\<open>DeleteItem\<close> evaluate their condition expression on the item stored
  under the request's key (on an item without attributes when there is none) and apply
  the write only when it holds. The three condition strings of the package are written as
  syntax trees.
\<close>

datatype AttributeValue = S string | N string

type_synonym item = "string \<rightharpoonup> AttributeValue"

datatype operand = Attr string | Val string

datatype comparator = EQ | NE | LT

datatype condition =
    Cmp operand comparator operand
  | CondAnd condition condition
  | CondOr condition condition

record PutItemInput =
  put_TableName :: string
  put_Item :: item
  put_ConditionExpression :: condition
  put_ExpressionAttributeNames :: "string \<rightharpoonup> string"
  put_ExpressionAttributeValues :: "string \<rightharpoonup> AttributeValue"

record DeleteItemInput =
  del_TableName :: string
  del_Key :: item
  del_ConditionExpression :: condition
  del_ExpressionAttributeNames :: "string \<rightharpoonup> string"
  del_ExpressionAttributeValues :: "string \<rightharpoonup> AttributeValue"

datatype request = PutItemRequest PutItemInput | DeleteItemRequest DeleteItemInput

text \<open>
  The state of the service: the tables by name, and the requests it has been sent, oldest
  first.
\<close>

record dynamodb =
  tables :: "string \<Rightarrow> string \<rightharpoonup> item"
  requests :: "request list"

fun operand_value ::
  "(string \<rightharpoonup> string) \<Rightarrow> (string \<rightharpoonup> AttributeValue) \<Rightarrow> item \<Rightarrow> operand \<Rightarrow> AttributeValue option"
where
  "operand_value names vals it (Attr p) = (case names p of None \<Rightarrow> None | Some a \<Rightarrow> it a)"
| "operand_value names vals it (Val v) = vals v"

fun operand_defined ::
  "(string \<rightharpoonup> string) \<Rightarrow> (string \<rightharpoonup> AttributeValue) \<Rightarrow> operand \<Rightarrow> bool"
where
  "operand_defined names vals (Attr p) = (names p \<noteq> None)"
| "operand_defined names vals (Val v) = (vals v \<noteq> None)"

fun condition_defined ::
  "(string \<rightharpoonup> string) \<Rightarrow> (string \<rightharpoonup> AttributeValue) \<Rightarrow> condition \<Rightarrow> bool"
where
  "condition_defined names vals (Cmp a c b) =
     (operand_defined names vals a \<and> operand_defined names vals b)"
| "condition_defined names vals (CondAnd x y) =
     (condition_defined names vals x \<and> condition_defined names vals y)"
| "condition_defined names vals (CondOr x y) =
     (condition_defined names vals x \<and> condition_defined names vals y)"

text \<open>Strings are ordered by their bytes, numbers by their value.\<close>

fun string_less :: "string \<Rightarrow> string \<Rightarrow> bool" where
  "string_less xs [] = False"
| "string_less [] (y # ys) = True"
| "string_less (x # xs) (y # ys) =
     ((of_char x :: nat) < of_char y \<or> (x = y \<and> string_less xs ys))"

fun value_eq :: "AttributeValue \<Rightarrow> AttributeValue \<Rightarrow> bool" where
  "value_eq (S a) (S b) = (a = b)"
| "value_eq (N a) (N b) =
     (case parse_int a of None \<Rightarrow> False
      | Some x \<Rightarrow> (case parse_int b of None \<Rightarrow> False | Some y \<Rightarrow> x = y))"
| "value_eq (S a) (N b) = False"
| "value_eq (N a) (S b) = False"

fun value_less :: "AttributeValue \<Rightarrow> AttributeValue \<Rightarrow> bool" where
  "value_less (S a) (S b) = string_less a b"
| "value_less (N a) (N b) =
     (case parse_int a of None \<Rightarrow> False
      | Some x \<Rightarrow> (case parse_int b of None \<Rightarrow> False | Some y \<Rightarrow> x < y))"
| "value_less (S a) (N b) = False"
| "value_less (N a) (S b) = False"

text \<open>
  A comparison with an attribute that the item does not have: \<^verbatim>\<open>=\<close> and \<^verbatim>\<open><\<close> do not
  hold, \<^verbatim>\<open><>\<close> holds.
\<close>

fun compare :: "comparator \<Rightarrow> AttributeValue option \<Rightarrow> AttributeValue option \<Rightarrow> bool" where
  "compare EQ (Some a) (Some b) = value_eq a b"
| "compare EQ x y = False"
| "compare NE (Some a) (Some b) = (\<not> value_eq a b)"
| "compare NE x y = True"
| "compare LT (Some a) (Some b) = value_less a b"
| "compare LT x y = False"

fun eval_condition ::
  "(string \<rightharpoonup> string) \<Rightarrow> (string \<rightharpoonup> AttributeValue) \<Rightarrow> item \<Rightarrow> condition \<Rightarrow> bool"
where
  "eval_condition names vals it (Cmp a c b) =
     compare c (operand_value names vals it a) (operand_value names vals it b)"
| "eval_condition names vals it (CondAnd x y) =
     (eval_condition names vals it x \<and> eval_condition names vals it y)"
| "eval_condition names vals it (CondOr x y) =
     (eval_condition names vals it x \<or> eval_condition names vals it y)"

definition key_of :: "item \<Rightarrow> string option" where
  "key_of it = (case it ''name'' of Some (S k) \<Rightarrow> Some k | _ \<Rightarrow> None)"

definition stored_item :: "dynamodb \<Rightarrow> string \<Rightarrow> string \<Rightarrow> item" where
  "stored_item d tn k = (case tables d tn k of None \<Rightarrow> Map.empty | Some it \<Rightarrow> it)"

definition ConditionalCheckFailed :: sdk_error where
  "ConditionalCheckFailed =
     AwsErr ''ConditionalCheckFailedException'' ''The conditional request failed''"

definition ValidationException :: sdk_error where
  "ValidationException = AwsErr ''ValidationException'' ''invalid request''"

text \<open>
  A call of the service. \<open>fault\<close> is what the client returns when the request does not get
  as far as the condition (no network, no credentials, no such table, throttling): then
  the table is as it was. Every call is recorded in \<open>requests\<close>.
\<close>

definition PutItem :: "sdk_error option \<Rightarrow> PutItemInput \<Rightarrow> dynamodb \<Rightarrow> dynamodb \<times> go_error option" where
  "PutItem fault params d =
     (let d1 = d\<lparr>requests := requests d @ [PutItemRequest params]\<rparr>;
          tn = put_TableName params;
          names = put_ExpressionAttributeNames params;
          vals = put_ExpressionAttributeValues params
      in case fault of
           Some e \<Rightarrow> (d1, Some (FromSdk e))
         | None \<Rightarrow>
             if \<not> condition_defined names vals (put_ConditionExpression params)
             then (d1, Some (FromSdk ValidationException))
             else (case key_of (put_Item params) of
                     None \<Rightarrow> (d1, Some (FromSdk ValidationException))
                   | Some k \<Rightarrow>
                       if eval_condition names vals (stored_item d tn k)
                            (put_ConditionExpression params)
                       then (d1\<lparr>tables := (tables d)(tn := (tables d tn)(k \<mapsto> put_Item params))\<rparr>,
                             None)
                       else (d1, Some (FromSdk ConditionalCheckFailed))))"

definition DeleteItem :: "sdk_error option \<Rightarrow> DeleteItemInput \<Rightarrow> dynamodb \<Rightarrow> dynamodb \<times> go_error option" where
  "DeleteItem fault params d =
     (let d1 = d\<lparr>requests := requests d @ [DeleteItemRequest params]\<rparr>;
          tn = del_TableName params;
          names = del_ExpressionAttributeNames params;
          vals = del_ExpressionAttributeValues params
      in case fault of
           Some e \<Rightarrow> (d1, Some (FromSdk e))
         | None \<Rightarrow>
             if \<not> condition_defined names vals (del_ConditionExpression params)
             then (d1, Some (FromSdk ValidationException))
             else (case key_of (del_Key params) of
                     None \<Rightarrow> (d1, Some (FromSdk ValidationException))
                   | Some k \<Rightarrow>
                       if eval_condition names vals (stored_item d tn k)
                            (del_ConditionExpression params)
                       then (d1\<lparr>tables := (tables d)(tn := (tables d tn)(k := None))\<rparr>, None)
                       else (d1, Some (FromSdk ConditionalCheckFailed))))"

section \<open>Package ddblock\<close>

subsection \<open>Package variables and the Mutex\<close>

text \<open>
  \<^verbatim>\<open>DefaultTableName\<close> and \<^verbatim>\<open>DefaultTTL\<close> are exported variables, so a program can assign
  to them; they are passed to the functions that read them. \<open>default_globals\<close> holds their
  initial values.
\<close>

record globals =
  DefaultTableName :: string
  DefaultTTL :: duration

definition default_globals :: globals where
  "default_globals = \<lparr>DefaultTableName = ''locks'', DefaultTTL = Minute\<rparr>"

definition nameString :: string where
  "nameString = ''name''"

definition uuidString :: string where
  "uuidString = ''uuid''"

definition expiresString :: string where
  "expiresString = ''expires''"

text \<open>
  The fields of \<^verbatim>\<open>Mutex\<close>. \<open>cancelled\<close> stands for the pair \<^verbatim>\<open>ctx\<close>, \<^verbatim>\<open>cancel\<close>: it is true
  when \<^verbatim>\<open>m.ctx.Err() != nil\<close>. The field \<^verbatim>\<open>lk\<close> makes \<^verbatim>\<open>create\<close>, \<^verbatim>\<open>update\<close> and
  \<^verbatim>\<open>delete\<close> run one at a time; here each of them is one function application.
\<close>

record Mutex =
  cancelled :: bool
  TableName :: string
  TTL :: duration
  name :: string
  fullname :: string
  uuid :: string

text \<open>
  \<^verbatim>\<open>New\<close>: the context argument is \<open>None\<close> for \<^verbatim>\<open>nil\<close>, otherwise it tells whether the
  parent context is already cancelled. \<open>now\<close> is the reading of \<^verbatim>\<open>time.Now()\<close>.
\<close>

definition New :: "globals \<Rightarrow> bool option \<Rightarrow> string \<Rightarrow> time \<Rightarrow> Mutex" where
  "New g ctx nm now =
     \<lparr>cancelled = (case ctx of None \<Rightarrow> False | Some c \<Rightarrow> c),
      TableName = DefaultTableName g,
      TTL = DefaultTTL g,
      name = nm,
      fullname = ''ddblock-'' @ nm,
      uuid = FormatInt (UnixNano now)\<rparr>"

definition Name :: "Mutex \<Rightarrow> string" where
  "Name m = name m"

definition cleanTTL :: "globals \<Rightarrow> Mutex \<Rightarrow> panic_value + duration" where
  "cleanTTL g m =
     (let ttl = TTL m;
          ttl = (if ttl = 0 then DefaultTTL g else ttl)
      in if ttl = 0 then Inl (PanicString ''ttl can not be zero'') else Inr ttl)"

subsection \<open>The three requests\<close>

definition create_params :: "Mutex \<Rightarrow> time \<Rightarrow> duration \<Rightarrow> PutItemInput" where
  "create_params m now ttl =
     \<lparr>put_TableName = TableName m,
      put_Item =
        [''name'' \<mapsto> S (fullname m),
         ''expires'' \<mapsto> N (FormatInt (UnixNano (Add now ttl))),
         ''uuid'' \<mapsto> S (uuid m)],
      put_ConditionExpression =
        CondOr (Cmp (Attr ''#name'') NE (Val '':name''))
               (CondAnd (Cmp (Attr ''#name'') EQ (Val '':name''))
                        (Cmp (Attr ''#exp'') LT (Val '':exp''))),
      put_ExpressionAttributeNames = [''#name'' \<mapsto> nameString, ''#exp'' \<mapsto> expiresString],
      put_ExpressionAttributeValues =
        ['':name'' \<mapsto> S (fullname m), '':exp'' \<mapsto> N (FormatInt (UnixNano now))]\<rparr>"

definition update_params :: "Mutex \<Rightarrow> time \<Rightarrow> duration \<Rightarrow> PutItemInput" where
  "update_params m now ttl =
     \<lparr>put_TableName = TableName m,
      put_Item =
        [''name'' \<mapsto> S (fullname m),
         ''expires'' \<mapsto> N (FormatInt (UnixNano (Add now ttl))),
         ''uuid'' \<mapsto> S (uuid m)],
      put_ConditionExpression =
        CondAnd (Cmp (Attr ''#name'') EQ (Val '':name''))
                (Cmp (Attr ''#uuid'') EQ (Val '':uuid'')),
      put_ExpressionAttributeNames = [''#name'' \<mapsto> nameString, ''#uuid'' \<mapsto> uuidString],
      put_ExpressionAttributeValues =
        ['':name'' \<mapsto> S (fullname m), '':uuid'' \<mapsto> S (uuid m)]\<rparr>"

definition delete_params :: "Mutex \<Rightarrow> DeleteItemInput" where
  "delete_params m =
     \<lparr>del_TableName = TableName m,
      del_Key = [''name'' \<mapsto> S (fullname m)],
      del_ConditionExpression =
        CondAnd (Cmp (Attr ''#name'') EQ (Val '':name''))
                (Cmp (Attr ''#uuid'') EQ (Val '':uuid'')),
      del_ExpressionAttributeNames = [''#name'' \<mapsto> ''name'', ''#uuid'' \<mapsto> ''uuid''],
      del_ExpressionAttributeValues =
        ['':name'' \<mapsto> S (fullname m), '':uuid'' \<mapsto> S (uuid m)]\<rparr>"

subsection \<open>create, update, delete, Lock and Unlock\<close>

text \<open>
  The state of a program that uses one Mutex: the Mutex, the service behind \<^verbatim>\<open>getSvc()\<close>
  (the client is made on first use; how it is configured is not part of the model), and
  the number of renewal goroutines that \<^verbatim>\<open>Lock\<close> has started and that have not returned.
  A function that can panic returns \<open>Inl\<close> of the panic value.
\<close>

record process =
  mutex :: Mutex
  svc :: dynamodb
  renewing :: nat

definition create ::
  "globals \<Rightarrow> time \<Rightarrow> sdk_error option \<Rightarrow> process \<Rightarrow> panic_value + (process \<times> go_error option)"
where
  "create g now fault p =
     (case cleanTTL g (mutex p) of
        Inl pv \<Rightarrow> Inl pv
      | Inr ttl \<Rightarrow>
          (case PutItem fault (create_params (mutex p) now ttl) (svc p) of
             (d, err) \<Rightarrow> Inr (p\<lparr>svc := d\<rparr>, err)))"

definition update ::
  "globals \<Rightarrow> time \<Rightarrow> sdk_error option \<Rightarrow> process \<Rightarrow> panic_value + (process \<times> go_error option)"
where
  "update g now fault p =
     (if uuid (mutex p) = [] then Inr (p, None)
      else (case cleanTTL g (mutex p) of
              Inl pv \<Rightarrow> Inl pv
            | Inr ttl \<Rightarrow>
                (case PutItem fault (update_params (mutex p) now ttl) (svc p) of
                   (d, None) \<Rightarrow> Inr (p\<lparr>svc := d\<rparr>, None)
                 | (d, Some e) \<Rightarrow> Inl (PanicError e))))"

definition delete :: "sdk_error option \<Rightarrow> process \<Rightarrow> process \<times> go_error option" where
  "delete fault p =
     (if uuid (mutex p) = [] then (p, None)
      else (case DeleteItem fault (delete_params (mutex p)) (svc p) of
              (d, err) \<Rightarrow>
                if IsAquireError err \<or> err = None
                then (p\<lparr>mutex := (mutex p)\<lparr>uuid := []\<rparr>, svc := d\<rparr>, None)
                else (p\<lparr>svc := d\<rparr>, err)))"

definition Unlock :: "sdk_error option \<Rightarrow> process \<Rightarrow> process \<times> go_error option" where
  "Unlock fault p = delete fault (p\<lparr>mutex := (mutex p)\<lparr>cancelled := True\<rparr>\<rparr>)"

text \<open>
  \<^verbatim>\<open>Lock\<close> starts the renewal goroutine with its \<^verbatim>\<open>go\<close> statement and then returns what
  \<^verbatim>\<open>create\<close> returns.
\<close>

definition Lock ::
  "globals \<Rightarrow> time \<Rightarrow> sdk_error option \<Rightarrow> process \<Rightarrow> panic_value + (process \<times> go_error option)"
where
  "Lock g now fault p = create g now fault (p\<lparr>renewing := Suc (renewing p)\<rparr>)"

subsection \<open>The renewal goroutine\<close>

text \<open>
  The goroutine spends its life waiting in the \<^verbatim>\<open>select\<close>, so its steps are cut there.
  \<open>renew_enter\<close> is the way into the wait: the loop condition \<^verbatim>\<open>m.ctx.Err() == nil\<close> is
  read, and entering the \<^verbatim>\<open>select\<close> evaluates \<^verbatim>\<open>m.cleanTTL() / 2\<close>. It is taken once when the
  goroutine starts and again after every \<^verbatim>\<open>update\<close>. \<open>Continue\<close> says that the goroutine is
  waiting, \<open>Stopped\<close> that it has returned, \<open>Crashed\<close> that it has panicked.
\<close>

datatype event =
    TimerFired time "sdk_error option"
  | CtxDone "sdk_error option"

datatype loop_result =
    Continue process
  | Stopped process
  | Crashed panic_value

definition renew_enter :: "globals \<Rightarrow> process \<Rightarrow> loop_result" where
  "renew_enter g p =
     (if cancelled (mutex p) then Stopped (p\<lparr>renewing := renewing p - 1\<rparr>)
      else (case cleanTTL g (mutex p) of
              Inl pv \<Rightarrow> Crashed pv
            | Inr ttl \<Rightarrow> Continue p))"

text \<open>
  One event ends the wait of a goroutine; \<open>p\<close> is the state at that moment, with whatever
  the caller has done to the Mutex during the wait. Either the context is done (through
  \<^verbatim>\<open>Unlock\<close> or through the parent context): the goroutine calls \<^verbatim>\<open>Unlock\<close> itself and
  returns. Or the timer fires: \<^verbatim>\<open>update\<close> runs with the clock reading and the fault of
  that call, and the goroutine goes back to the loop condition. When both channels are
  ready the \<^verbatim>\<open>select\<close> may take either, so the timer event is possible for a cancelled
  context too; then the loop ends at its condition, without a call of \<^verbatim>\<open>Unlock\<close>.
\<close>

definition renew_iter :: "globals \<Rightarrow> event \<Rightarrow> process \<Rightarrow> loop_result" where
  "renew_iter g ev p =
     (case ev of
        CtxDone fault \<Rightarrow>
          (case Unlock fault p of
             (p', err) \<Rightarrow> Stopped (p'\<lparr>renewing := renewing p' - 1\<rparr>))
      | TimerFired now fault \<Rightarrow>
          (case update g now fault p of
             Inl pv \<Rightarrow> Crashed pv
           | Inr (p', err) \<Rightarrow> renew_enter g p'))"

text \<open>
  The loop of the goroutine has no last pass of its own. A waiting goroutine is followed
  over the events that are given: the run ends when the goroutine returns or panics, and
  \<open>Continue\<close> says that it is still waiting when the events are used up. \<open>renew_run\<close> is
  the goroutine from its \<^verbatim>\<open>go\<close> statement on.
\<close>

fun renew_loop :: "globals \<Rightarrow> event list \<Rightarrow> process \<Rightarrow> loop_result" where
  "renew_loop g [] p = Continue p"
| "renew_loop g (ev # evs) p =
     (case renew_iter g ev p of
        Continue p' \<Rightarrow> renew_loop g evs p'
      | Stopped p' \<Rightarrow> Stopped p'
      | Crashed pv \<Rightarrow> Crashed pv)"

definition renew_run :: "globals \<Rightarrow> event list \<Rightarrow> process \<Rightarrow> loop_result" where
  "renew_run g evs p =
     (case renew_enter g p of
        Continue p' \<Rightarrow> renew_loop g evs p'
      | Stopped p' \<Rightarrow> Stopped p'
      | Crashed pv \<Rightarrow> Crashed pv)"

subsection \<open>Reading the lock record\<close>

text \<open>
  The item that \<^verbatim>\<open>create\<close> and \<^verbatim>\<open>update\<close> write for key \<open>k\<close>, owner \<open>u\<close> and expiry \<open>e\<close>
  (nanoseconds since the epoch), and the item stored under the Mutex's key.
\<close>

definition lease_item :: "string \<Rightarrow> string \<Rightarrow> int \<Rightarrow> item" where
  "lease_item k u e = [''name'' \<mapsto> S k, ''expires'' \<mapsto> N (FormatInt e), ''uuid'' \<mapsto> S u]"

definition record_at :: "process \<Rightarrow> item option" where
  "record_at p = tables (svc p) (TableName (mutex p)) (fullname (mutex p))"

definition expires_of :: "item \<Rightarrow> int option" where
  "expires_of it = (case it ''expires'' of Some (N s) \<Rightarrow> parse_int s | _ \<Rightarrow> None)"

definition owner_of :: "item \<Rightarrow> string option" where
  "owner_of it = (case it ''uuid'' of Some (S u) \<Rightarrow> Some u | _ \<Rightarrow> None)"

subsection \<open>Observations and sample states\<close>

text \<open>What a call returned, without the state.\<close>

definition error_of ::
  "panic_value + (process \<times> go_error option) \<Rightarrow> panic_value + go_error option"
where
  "error_of r = map_sum (\<lambda>pv. pv) snd r"

text \<open>The owner token of the lock record after a call, if the call returned.\<close>

definition owner_after :: "panic_value + (process \<times> go_error option) \<Rightarrow> string option" where
  "owner_after r =
     (case r of
        Inl pv \<Rightarrow> None
      | Inr (p', err) \<Rightarrow> (case record_at p' of None \<Rightarrow> None | Some it \<Rightarrow> owner_of it))"

definition int64 :: "int \<Rightarrow> bool" where
  "int64 x = (- (2 ^ 63) \<le> x \<and> x < 2 ^ 63)"

text \<open>\<^verbatim>\<open>Unlock\<close> called once for each element of a list of faults; the results in order.\<close>

fun unlocks :: "sdk_error option list \<Rightarrow> process \<Rightarrow> process \<times> go_error option list" where
  "unlocks [] p = (p, [])"
| "unlocks (f # fs) p =
     (case Unlock f p of
        (p', err) \<Rightarrow> (case unlocks fs p' of (p'', errs) \<Rightarrow> (p'', err # errs)))"

text \<open>
  The expiry read from the lock record after each pass of the renewal loop, for as long
  as the loop goes on.
\<close>

fun renewal_expiries :: "globals \<Rightarrow> event list \<Rightarrow> process \<Rightarrow> int list" where
  "renewal_expiries g [] p = []"
| "renewal_expiries g (ev # evs) p =
     (case renew_iter g ev p of
        Continue p' \<Rightarrow>
          (case record_at p' of
             None \<Rightarrow> []
           | Some it \<Rightarrow> (case expires_of it of None \<Rightarrow> [] | Some e \<Rightarrow> [e]))
            @ renewal_expiries g evs p'
      | Stopped p' \<Rightarrow> []
      | Crashed pv \<Rightarrow> [])"

text \<open>The events of a run in which only the timer fires and every request reaches the
  table: one per clock reading.\<close>

definition ticks :: "time list \<Rightarrow> event list" where
  "ticks ts = map (\<lambda>t. TimerFired t None) ts"

text \<open>
  Sample states: a service without items and one with a single item; a Mutex for
  \<^verbatim>\<open>job-7\<close> made at clock reading 1000 with the default settings; that Mutex before any
  call, facing a record of another owner that expires at 5000, and holding its own record.
\<close>

definition empty_service :: dynamodb where
  "empty_service = \<lparr>tables = (\<lambda>tn. Map.empty), requests = []\<rparr>"

definition service_with :: "string \<Rightarrow> string \<Rightarrow> item \<Rightarrow> dynamodb" where
  "service_with tn k it = \<lparr>tables = (\<lambda>t. Map.empty)(tn := [k \<mapsto> it]), requests = []\<rparr>"

definition handle :: Mutex where
  "handle = New default_globals None ''job-7'' 1000"

definition fresh :: process where
  "fresh = \<lparr>mutex = handle, svc = empty_service, renewing = 0\<rparr>"

definition contended :: process where
  "contended =
     \<lparr>mutex = handle,
      svc = service_with ''locks'' ''ddblock-job-7'' (lease_item ''ddblock-job-7'' ''999'' 5000),
      renewing = 0\<rparr>"

definition held :: process where
  "held =
     \<lparr>mutex = handle,
      svc = service_with ''locks'' ''ddblock-job-7''
              (lease_item ''ddblock-job-7'' (uuid handle) 60000006000),
      renewing = 1\<rparr>"

text \<open>
  The sample Mutex with a lease of 9223371986854775807 nanoseconds (some 292 years),
  holding the record that it wrote at clock reading 6000.
\<close>

definition long_lease :: process where
  "long_lease =
     \<lparr>mutex = handle\<lparr>TTL := 9223371986854775807\<rparr>,
      svc = service_with ''locks'' ''ddblock-job-7''
              (lease_item ''ddblock-job-7'' (uuid handle) 9223371986854781807),
      renewing = 1\<rparr>"

section \<open>Properties of the decimal text\<close>

lemma digits_not_empty: "digits n \<noteq> []"
  by (subst digits.simps) simp

lemma FormatInt_not_empty: "FormatInt i \<noteq> []"
  by (simp add: FormatInt_def digits_not_empty)

lemma is_digit_digit: "d < 10 \<Longrightarrow> is_digit (digit d)"
  by (simp add: is_digit_def digit_def)

lemma digit_value: "d < 10 \<Longrightarrow> (of_char (digit d) :: nat) - 48 = d"
  by (simp add: digit_def)

lemma parse_digits_snoc:
  "d < 10 \<Longrightarrow>
   parse_digits acc (cs @ [digit d]) = map_option (\<lambda>a. a * 10 + d) (parse_digits acc cs)"
  by (induction cs arbitrary: acc) (simp_all add: is_digit_digit digit_value)

lemma parse_digits_digits: "parse_digits 0 (digits n) = Some n"
proof (induction n rule: digits.induct)
  case (1 n)
  show ?case
  proof (cases "n < 10")
    case True
    then show ?thesis
      by (subst digits.simps) (simp add: is_digit_digit digit_value)
  next
    case False
    then have "parse_digits 0 (digits (n div 10)) = Some (n div 10)"
      using "1.IH" by simp
    then show ?thesis
      using False by (subst digits.simps) (simp add: parse_digits_snoc)
  qed
qed

lemma parse_nat_digits: "parse_nat (digits n) = Some n"
  by (simp add: parse_nat_def digits_not_empty parse_digits_digits)

lemma digit_not_minus: "d < 10 \<Longrightarrow> digit d \<noteq> CHR ''-''"
proof
  assume d: "d < 10" and eq: "digit d = CHR ''-''"
  from eq have "(of_char (digit d) :: nat) = of_char CHR ''-''"
    by simp
  with d show False
    by (simp add: digit_def)
qed

lemma hd_digits_not_minus: "hd (digits n) \<noteq> CHR ''-''"
proof (induction n rule: digits.induct)
  case (1 n)
  show ?case
  proof (cases "n < 10")
    case True
    then show ?thesis
      by (subst digits.simps) (simp add: digit_not_minus)
  next
    case False
    then show ?thesis
      using "1.IH" by (subst digits.simps) (simp add: digits_not_empty)
  qed
qed

lemma parse_int_digits: "parse_int (digits n) = Some (int n)"
proof (cases "digits n")
  case Nil
  then show ?thesis by (simp add: digits_not_empty)
next
  case (Cons c cs)
  then have "c \<noteq> CHR ''-''"
    using hd_digits_not_minus [of n] by simp
  then show ?thesis
    using Cons parse_nat_digits [of n] by simp
qed

lemma parse_int_FormatInt: "parse_int (FormatInt i) = Some i"
  by (simp add: FormatInt_def parse_nat_digits parse_int_digits)

lemma digit_table:
  "digit 0 = CHR ''0''" "digit 1 = CHR ''1''" "digit 2 = CHR ''2''" "digit 3 = CHR ''3''"
  "digit 4 = CHR ''4''" "digit 5 = CHR ''5''" "digit 6 = CHR ''6''" "digit 7 = CHR ''7''"
  "digit 8 = CHR ''8''" "digit 9 = CHR ''9''" "digit (Suc 0) = CHR ''1''"
  by code_simp+

lemma UnixNano_int64: "int64 t \<Longrightarrow> UnixNano t = t"
  by (simp add: UnixNano_def int64_def)

section \<open>The sample states\<close>

lemma handle_fields:
  "cancelled handle = False" "TableName handle = ''locks''" "TTL handle = Minute"
  "name handle = ''job-7''" "fullname handle = ''ddblock-job-7''"
  "uuid handle = FormatInt (UnixNano 1000)"
  by (simp_all add: handle_def New_def default_globals_def)

lemma uuid_handle: "uuid handle = ''1000''"
  by (simp add: handle_fields UnixNano_def FormatInt_def digits.simps digit_table)

lemma cleanTTL_handle: "cleanTTL default_globals handle = Inr Minute"
  by (simp add: cleanTTL_def handle_fields default_globals_def Minute_def)

lemma record_at_fresh: "record_at fresh = None"
  by (simp add: record_at_def fresh_def empty_service_def)

lemma record_at_contended:
  "record_at contended = Some (lease_item (fullname (mutex contended)) ''999'' 5000)"
  by (simp add: record_at_def contended_def service_with_def handle_fields)

lemma record_at_held:
  "record_at held = Some (lease_item (fullname (mutex held)) (uuid (mutex held)) 60000006000)"
  by (simp add: record_at_def held_def service_with_def handle_fields)

section \<open>Acquiring: the conditional create\<close>

lemma key_of_lease_item: "key_of (lease_item k u e) = Some k"
  by (simp add: lease_item_def key_of_def)

lemma owner_of_lease_item: "owner_of (lease_item k u e) = Some u"
  by (simp add: lease_item_def owner_of_def)

lemma expires_of_lease_item: "expires_of (lease_item k u e) = Some e"
  by (simp add: lease_item_def expires_of_def parse_int_FormatInt)

lemma create_item:
  "put_Item (create_params m now ttl) =
     lease_item (fullname m) (uuid m) (UnixNano (Add now ttl))"
  by (simp add: create_params_def lease_item_def)

lemma create_table: "put_TableName (create_params m now ttl) = TableName m"
  by (simp add: create_params_def)

lemma create_condition_defined:
  "condition_defined (put_ExpressionAttributeNames (create_params m now ttl))
     (put_ExpressionAttributeValues (create_params m now ttl))
     (put_ConditionExpression (create_params m now ttl))"
  by (simp add: create_params_def)

lemma create_condition_absent:
  "eval_condition (put_ExpressionAttributeNames (create_params m now ttl))
     (put_ExpressionAttributeValues (create_params m now ttl)) Map.empty
     (put_ConditionExpression (create_params m now ttl))"
  by (simp add: create_params_def nameString_def expiresString_def)

lemma create_condition_present:
  "eval_condition (put_ExpressionAttributeNames (create_params m now ttl))
     (put_ExpressionAttributeValues (create_params m now ttl)) (lease_item (fullname m) u e)
     (put_ConditionExpression (create_params m now ttl)) = (e < UnixNano now)"
  by (simp add: create_params_def nameString_def expiresString_def lease_item_def
      parse_int_FormatInt)

lemma PutItem_create:
  "PutItem None (create_params m now ttl) d =
     (if eval_condition (put_ExpressionAttributeNames (create_params m now ttl))
           (put_ExpressionAttributeValues (create_params m now ttl))
           (stored_item d (TableName m) (fullname m))
           (put_ConditionExpression (create_params m now ttl))
      then (d\<lparr>requests := requests d @ [PutItemRequest (create_params m now ttl)],
              tables := (tables d)(TableName m := (tables d (TableName m))
                 (fullname m \<mapsto> lease_item (fullname m) (uuid m) (UnixNano (Add now ttl))))\<rparr>,
            None)
      else (d\<lparr>requests := requests d @ [PutItemRequest (create_params m now ttl)]\<rparr>,
            Some (FromSdk ConditionalCheckFailed)))"
  by (simp add: PutItem_def Let_def create_condition_defined key_of_lease_item create_table
      create_item)

lemma PutItem_fault:
  "PutItem (Some f) params d =
     (d\<lparr>requests := requests d @ [PutItemRequest params]\<rparr>, Some (FromSdk f))"
  by (simp add: PutItem_def Let_def)

lemma Lock_granted:
  assumes "cleanTTL g (mutex p) = Inr ttl"
    and "record_at p = None \<or>
         (record_at p = Some (lease_item (fullname (mutex p)) u e) \<and> e < UnixNano now)"
  shows "\<exists>p'. Lock g now None p = Inr (p', None) \<and> mutex p' = mutex p \<and>
      renewing p' = Suc (renewing p) \<and>
      record_at p' =
        Some (lease_item (fullname (mutex p)) (uuid (mutex p)) (UnixNano (Add now ttl)))"
  using assms
  by (auto simp: Lock_def create_def PutItem_create record_at_def stored_item_def
      create_condition_absent create_condition_present)

lemma Lock_refused:
  assumes "cleanTTL g (mutex p) = Inr ttl"
    and "record_at p = Some (lease_item (fullname (mutex p)) u e)"
    and "UnixNano now \<le> e"
  shows "\<exists>p'. Lock g now None p = Inr (p', Some (FromSdk ConditionalCheckFailed)) \<and>
      mutex p' = mutex p \<and> renewing p' = Suc (renewing p) \<and>
      tables (svc p') = tables (svc p)"
  using assms
  by (auto simp: Lock_def create_def PutItem_create record_at_def stored_item_def
      create_condition_absent create_condition_present)

text \<open>
  C1, as amended. An attempt to lock that reaches the table (no fault) and whose lease
  duration is defined: the conditional create succeeds, and writes the record of this
  Mutex with expiry now + ttl, when the key has no record or when the record's expiry is
  strictly below the clock reading of the attempt. It is refused with the error that
  \<open>IsAquireError\<close> recognises, and the table is left as it was, when the key has a record
  whose expiry is at or above that reading, whatever its owner token.
\<close>

theorem C1_create_condition:
  "cleanTTL g (mutex p) = Inr ttl \<Longrightarrow>
   (record_at p = None \<longrightarrow>
      (\<exists>p'. Lock g now None p = Inr (p', None) \<and>
         record_at p' =
           Some (lease_item (fullname (mutex p)) (uuid (mutex p)) (UnixNano (Add now ttl))))) \<and>
   (record_at p = Some (lease_item (fullname (mutex p)) u e) \<and> e < UnixNano now \<longrightarrow>
      (\<exists>p'. Lock g now None p = Inr (p', None) \<and>
         record_at p' =
           Some (lease_item (fullname (mutex p)) (uuid (mutex p)) (UnixNano (Add now ttl))))) \<and>
   (record_at p = Some (lease_item (fullname (mutex p)) u e) \<and> UnixNano now \<le> e \<longrightarrow>
      (\<exists>p'. Lock g now None p = Inr (p', Some (FromSdk ConditionalCheckFailed)) \<and>
         IsAquireError (Some (FromSdk ConditionalCheckFailed)) \<and>
         tables (svc p') = tables (svc p)))"
proof (intro conjI impI)
  assume t: "cleanTTL g (mutex p) = Inr ttl"
  {
    assume "record_at p = None"
    with t show "\<exists>p'. Lock g now None p = Inr (p', None) \<and>
         record_at p' =
           Some (lease_item (fullname (mutex p)) (uuid (mutex p)) (UnixNano (Add now ttl)))"
      using Lock_granted [of g p ttl u e now] by auto
  }
  {
    assume "record_at p = Some (lease_item (fullname (mutex p)) u e) \<and> e < UnixNano now"
    with t show "\<exists>p'. Lock g now None p = Inr (p', None) \<and>
         record_at p' =
           Some (lease_item (fullname (mutex p)) (uuid (mutex p)) (UnixNano (Add now ttl)))"
      using Lock_granted [of g p ttl u e now] by auto
  }
  {
    assume "record_at p = Some (lease_item (fullname (mutex p)) u e) \<and> UnixNano now \<le> e"
    with t show "\<exists>p'. Lock g now None p = Inr (p', Some (FromSdk ConditionalCheckFailed)) \<and>
         IsAquireError (Some (FromSdk ConditionalCheckFailed)) \<and>
         tables (svc p') = tables (svc p)"
      using Lock_refused [of g p ttl u e now] by (auto simp: ConditionalCheckFailed_def)
  }
qed

text \<open>
  The three cases of C1 at sample states: no record; a record of another owner that
  expired at 5000, tried at 6000; the same record tried at 4000.
\<close>

theorem C1_create_condition_witness:
  "cleanTTL default_globals (mutex fresh) = Inr Minute \<and>
   record_at fresh = None \<and>
   error_of (Lock default_globals 6000 None fresh) = Inr None \<and>
   record_at contended = Some (lease_item (fullname (mutex contended)) ''999'' 5000) \<and>
   5000 < UnixNano 6000 \<and>
   error_of (Lock default_globals 6000 None contended) = Inr None \<and>
   UnixNano 4000 \<le> 5000 \<and>
   error_of (Lock default_globals 4000 None contended) =
     Inr (Some (FromSdk ConditionalCheckFailed))"
proof -
  have t1: "cleanTTL default_globals (mutex fresh) = Inr Minute"
    by (simp add: fresh_def cleanTTL_handle)
  have t2: "cleanTTL default_globals (mutex contended) = Inr Minute"
    by (simp add: contended_def cleanTTL_handle)
  have u1: "UnixNano 6000 = 6000" and u2: "UnixNano 4000 = 4000"
    by (simp_all add: UnixNano_def)
  show ?thesis
    using C1_create_condition [where now = 6000, OF t1]
      C1_create_condition [where now = 6000 and u = "''999''" and e = 5000, OF t2]
      C1_create_condition [where now = 4000 and u = "''999''" and e = 5000, OF t2]
      t1 record_at_fresh record_at_contended u1 u2
    by (auto simp: error_of_def)
qed

text \<open>
  C1 as stated fails where the expiry equals the clock reading. The record of the other
  owner expires at 5000 and the attempt is made at 5000: the record's expiry is not after
  the current time, so no live record exists, and yet the create is refused.
\<close>

theorem C1_expiry_boundary_counterexample:
  "record_at contended = Some (lease_item (fullname (mutex contended)) ''999'' 5000) \<and>
   \<not> (UnixNano 5000 < 5000) \<and>
   error_of (Lock default_globals 5000 None contended) =
     Inr (Some (FromSdk ConditionalCheckFailed))"
proof -
  have t2: "cleanTTL default_globals (mutex contended) = Inr Minute"
    by (simp add: contended_def cleanTTL_handle)
  have u: "UnixNano 5000 = 5000"
    by (simp add: UnixNano_def)
  show ?thesis
    using Lock_refused [OF t2 record_at_contended, of 5000] u record_at_contended
    by (auto simp: error_of_def)
qed

section \<open>Releasing: the conditional delete\<close>

lemma delete_condition_defined:
  "condition_defined (del_ExpressionAttributeNames (delete_params m))
     (del_ExpressionAttributeValues (delete_params m))
     (del_ConditionExpression (delete_params m))"
  by (simp add: delete_params_def)

lemma delete_condition_absent:
  "\<not> eval_condition (del_ExpressionAttributeNames (delete_params m))
     (del_ExpressionAttributeValues (delete_params m)) Map.empty
     (del_ConditionExpression (delete_params m))"
  by (simp add: delete_params_def)

lemma delete_condition_present:
  "eval_condition (del_ExpressionAttributeNames (delete_params m))
     (del_ExpressionAttributeValues (delete_params m)) (lease_item (fullname m) u e)
     (del_ConditionExpression (delete_params m)) = (u = uuid m)"
  by (simp add: delete_params_def lease_item_def)

lemma delete_key: "key_of (del_Key (delete_params m)) = Some (fullname m)"
  by (simp add: delete_params_def key_of_def)

lemma delete_table: "del_TableName (delete_params m) = TableName m"
  by (simp add: delete_params_def)

lemma delete_params_cancelled: "delete_params (m\<lparr>cancelled := c\<rparr>) = delete_params m"
  by (simp add: delete_params_def)

lemma cancel_again: "cancelled (mutex p) \<Longrightarrow> p\<lparr>mutex := (mutex p)\<lparr>cancelled := True\<rparr>\<rparr> = p"
  by simp

lemma DeleteItem_delete:
  "DeleteItem None (delete_params m) d =
     (if eval_condition (del_ExpressionAttributeNames (delete_params m))
           (del_ExpressionAttributeValues (delete_params m))
           (stored_item d (TableName m) (fullname m))
           (del_ConditionExpression (delete_params m))
      then (d\<lparr>requests := requests d @ [DeleteItemRequest (delete_params m)],
              tables := (tables d)(TableName m := (tables d (TableName m))(fullname m := None))\<rparr>,
            None)
      else (d\<lparr>requests := requests d @ [DeleteItemRequest (delete_params m)]\<rparr>,
            Some (FromSdk ConditionalCheckFailed)))"
  by (simp add: DeleteItem_def Let_def delete_condition_defined delete_key delete_table)

lemma DeleteItem_fault:
  "DeleteItem (Some f) params d =
     (d\<lparr>requests := requests d @ [DeleteItemRequest params]\<rparr>, Some (FromSdk f))"
  by (simp add: DeleteItem_def Let_def)

lemma IsAquireError_CCF: "IsAquireError (Some (FromSdk ConditionalCheckFailed))"
  by (simp add: ConditionalCheckFailed_def)

lemma Unlock_released:
  "uuid (mutex p) = [] \<Longrightarrow> Unlock f p = (p\<lparr>mutex := (mutex p)\<lparr>cancelled := True\<rparr>\<rparr>, None)"
  by (simp add: Unlock_def delete_def)

lemma Unlock_own:
  assumes "uuid (mutex p) \<noteq> []"
    and "record_at p = Some (lease_item (fullname (mutex p)) (uuid (mutex p)) e)"
  shows "\<exists>p'. Unlock None p = (p', None) \<and> uuid (mutex p') = [] \<and> cancelled (mutex p') \<and>
           record_at p' = None"
  using assms
  by (auto simp: Unlock_def delete_def DeleteItem_delete record_at_def stored_item_def
      delete_condition_present delete_params_cancelled)

lemma Unlock_lost:
  assumes "uuid (mutex p) \<noteq> []"
    and "record_at p = None \<or>
         (record_at p = Some (lease_item (fullname (mutex p)) u e) \<and> u \<noteq> uuid (mutex p))"
  shows "\<exists>p'. Unlock None p = (p', None) \<and> uuid (mutex p') = [] \<and> cancelled (mutex p') \<and>
           tables (svc p') = tables (svc p)"
  using assms
  by (auto simp: Unlock_def delete_def DeleteItem_delete record_at_def stored_item_def
      delete_condition_present delete_condition_absent IsAquireError_CCF
      delete_params_cancelled)

lemma Unlock_result:
  assumes "uuid (mutex p) \<noteq> []"
    and "DeleteItem fault (delete_params ((mutex p)\<lparr>cancelled := True\<rparr>)) (svc p) = (d, err)"
  shows "Unlock fault p =
     (if IsAquireError err \<or> err = None
      then (\<lparr>mutex = (mutex p)\<lparr>cancelled := True, uuid := []\<rparr>, svc = d, renewing = renewing p\<rparr>, None)
      else (\<lparr>mutex = (mutex p)\<lparr>cancelled := True\<rparr>, svc = d, renewing = renewing p\<rparr>, err))"
  using assms by (simp add: Unlock_def delete_def)

lemma Unlock_None_cleared: "Unlock f p = (p', None) \<Longrightarrow> uuid (mutex p') = [] \<and> cancelled (mutex p')"
  by (auto simp: Unlock_def delete_def split: if_splits prod.splits)

lemma unlocks_released:
  "uuid (mutex p) = [] \<Longrightarrow> cancelled (mutex p) \<Longrightarrow> unlocks fs p = (p, replicate (length fs) None)"
  by (induction fs) (simp_all add: Unlock_released cancel_again)


lemma DeleteItem_error_tables:
  "DeleteItem fault params d = (d', Some er) \<Longrightarrow> tables d' = tables d"
  by (auto simp: DeleteItem_def Let_def split: option.splits if_splits)

text \<open>
  C4. \<^verbatim>\<open>Unlock\<close> on a Mutex whose owner token is already empty returns nil at once: the
  state of the service, with the list of requests it has received, is what it was, and
  only the context is cancelled. And whenever a call of \<^verbatim>\<open>Unlock\<close> returns nil, the owner
  token is empty afterwards and every further call, however many and whatever the
  network does, returns nil and changes nothing.
\<close>

theorem C4_Unlock_idempotent:
  "(uuid (mutex p) = [] \<longrightarrow>
      Unlock f p = (p\<lparr>mutex := (mutex p)\<lparr>cancelled := True\<rparr>\<rparr>, None)) \<and>
   (Unlock f p = (p', None) \<longrightarrow>
      uuid (mutex p') = [] \<and> unlocks fs p' = (p', replicate (length fs) None))"
  using Unlock_released [of p f] Unlock_None_cleared [of f p p'] unlocks_released [of p' fs]
  by auto

text \<open>
  C4 at sample states: the sample Mutex with its token cleared, and the Mutex that holds
  its record, unlocked once and then three more times.
\<close>

theorem C4_Unlock_idempotent_witness:
  "uuid (mutex (held\<lparr>mutex := handle\<lparr>uuid := []\<rparr>\<rparr>)) = [] \<and>
   snd (Unlock (Some (NonAwsErr ''timeout'')) (held\<lparr>mutex := handle\<lparr>uuid := []\<rparr>\<rparr>)) = None \<and>
   svc (fst (Unlock (Some (NonAwsErr ''timeout'')) (held\<lparr>mutex := handle\<lparr>uuid := []\<rparr>\<rparr>))) = svc held \<and>
   snd (Unlock None held) = None \<and>
   snd (unlocks [None, Some (NonAwsErr ''timeout''), None] (fst (Unlock None held))) =
     [None, None, None]"
proof -
  have "uuid (mutex held) \<noteq> []"
    by (simp add: held_def uuid_handle)
  then obtain p' where p': "Unlock None held = (p', None)"
    using Unlock_own [OF _ record_at_held] by blast
  show ?thesis
    using C4_Unlock_idempotent [of "held\<lparr>mutex := handle\<lparr>uuid := []\<rparr>\<rparr>"
        "Some (NonAwsErr ''timeout'')"]
      C4_Unlock_idempotent [of held None p' "[None, Some (NonAwsErr ''timeout''), None]"] p'
    by simp
qed

text \<open>
  C5. \<^verbatim>\<open>Unlock\<close> on a Mutex with a non-empty owner token. If the record under the key is
  the Mutex's own, the delete succeeds: the record is gone, the token is cleared, the
  context is cancelled and nil is returned. If there is no record or the record has another
  owner token, the delete is refused by its condition: the table is as it was, the token is
  cleared, the context is cancelled and nil is returned. In general, whenever
  \<^verbatim>\<open>DeleteItem\<close> returns nil or an error that \<open>IsAquireError\<close> recognises, \<^verbatim>\<open>Unlock\<close> returns
  nil with the token cleared. The package has no lifecycle field: a released Mutex is one
  with an empty token and a cancelled context.
\<close>

theorem C5_Unlock_clears_owner:
  "uuid (mutex p) \<noteq> [] \<Longrightarrow>
   (record_at p = Some (lease_item (fullname (mutex p)) (uuid (mutex p)) e) \<longrightarrow>
      (\<exists>p'. Unlock None p = (p', None) \<and> uuid (mutex p') = [] \<and> cancelled (mutex p') \<and>
         record_at p' = None)) \<and>
   (record_at p = None \<or>
    (record_at p = Some (lease_item (fullname (mutex p)) u e) \<and> u \<noteq> uuid (mutex p)) \<longrightarrow>
      (\<exists>p'. Unlock None p = (p', None) \<and> uuid (mutex p') = [] \<and> cancelled (mutex p') \<and>
         tables (svc p') = tables (svc p))) \<and>
   (DeleteItem fault (delete_params (mutex p)) (svc p) = (d, err) \<and>
    (err = None \<or> IsAquireError err) \<longrightarrow>
      Unlock fault p =
        (\<lparr>mutex = (mutex p)\<lparr>cancelled := True, uuid := []\<rparr>, svc = d, renewing = renewing p\<rparr>,
         None))"
proof (intro conjI impI)
  assume h: "uuid (mutex p) \<noteq> []"
  {
    assume "record_at p = Some (lease_item (fullname (mutex p)) (uuid (mutex p)) e)"
    with h show "\<exists>p'. Unlock None p = (p', None) \<and> uuid (mutex p') = [] \<and>
        cancelled (mutex p') \<and> record_at p' = None"
      by (rule Unlock_own)
  }
  {
    assume "record_at p = None \<or>
      (record_at p = Some (lease_item (fullname (mutex p)) u e) \<and> u \<noteq> uuid (mutex p))"
    with h show "\<exists>p'. Unlock None p = (p', None) \<and> uuid (mutex p') = [] \<and>
        cancelled (mutex p') \<and> tables (svc p') = tables (svc p)"
      by (rule Unlock_lost)
  }
  {
    assume a: "DeleteItem fault (delete_params (mutex p)) (svc p) = (d, err) \<and>
      (err = None \<or> IsAquireError err)"
    then have "DeleteItem fault (delete_params ((mutex p)\<lparr>cancelled := True\<rparr>)) (svc p) = (d, err)"
      by (simp add: delete_params_cancelled)
    from Unlock_result [OF h this] a
    show "Unlock fault p =
        (\<lparr>mutex = (mutex p)\<lparr>cancelled := True, uuid := []\<rparr>, svc = d, renewing = renewing p\<rparr>,
         None)"
      by auto
  }
qed

text \<open>
  C5 at sample states: the Mutex that holds its record, the Mutex facing another owner's
  record, and a conflict-shaped error returned by the client.
\<close>

theorem C5_Unlock_clears_owner_witness:
  "uuid (mutex held) \<noteq> [] \<and>
   record_at held = Some (lease_item (fullname (mutex held)) (uuid (mutex held)) 60000006000) \<and>
   snd (Unlock None held) = None \<and> uuid (mutex (fst (Unlock None held))) = [] \<and>
   record_at (fst (Unlock None held)) = None \<and>
   uuid (mutex contended) \<noteq> [] \<and>
   record_at contended = Some (lease_item (fullname (mutex contended)) ''999'' 5000) \<and>
   ''999'' \<noteq> uuid (mutex contended) \<and>
   snd (Unlock None contended) = None \<and> uuid (mutex (fst (Unlock None contended))) = [] \<and>
   tables (svc (fst (Unlock None contended))) = tables (svc contended) \<and>
   IsAquireError (Some (FromSdk (AwsErr ''ConditionalCheckFailedException'' ''lost''))) \<and>
   snd (Unlock (Some (AwsErr ''ConditionalCheckFailedException'' ''lost'')) held) = None \<and>
   uuid (mutex (fst (Unlock (Some (AwsErr ''ConditionalCheckFailedException'' ''lost'')) held))) = []"
proof -
  have h: "uuid (mutex held) \<noteq> []"
    by (simp add: held_def uuid_handle)
  have c: "uuid (mutex contended) \<noteq> []" "''999'' \<noteq> uuid (mutex contended)"
    by (simp_all add: contended_def uuid_handle)
  have d: "DeleteItem (Some (AwsErr ''ConditionalCheckFailedException'' ''lost''))
      (delete_params (mutex held)) (svc held) =
      ((svc held)\<lparr>requests := requests (svc held) @ [DeleteItemRequest (delete_params (mutex held))]\<rparr>,
       Some (FromSdk (AwsErr ''ConditionalCheckFailedException'' ''lost'')))"
    by (rule DeleteItem_fault)
  let ?f = "Some (AwsErr ''ConditionalCheckFailedException'' ''lost'')"
  let ?d = "(svc held)\<lparr>requests := requests (svc held) @
    [DeleteItemRequest (delete_params (mutex held))]\<rparr>"
  have a: "\<exists>p'. Unlock None held = (p', None) \<and> uuid (mutex p') = [] \<and>
      cancelled (mutex p') \<and> record_at p' = None"
    using C5_Unlock_clears_owner [OF h, of 60000006000 "[]" None ?d None] record_at_held
    by simp
  have b: "\<exists>p'. Unlock None contended = (p', None) \<and> uuid (mutex p') = [] \<and>
      cancelled (mutex p') \<and> tables (svc p') = tables (svc contended)"
    using C5_Unlock_clears_owner [OF c(1), of 5000 "''999''" None ?d None]
      record_at_contended c(2)
    by simp
  have e: "Unlock ?f held =
      (\<lparr>mutex = (mutex held)\<lparr>cancelled := True, uuid := []\<rparr>, svc = ?d,
        renewing = renewing held\<rparr>, None)"
    using C5_Unlock_clears_owner [OF h, of 60000006000 "[]" ?f ?d
        "Some (FromSdk (AwsErr ''ConditionalCheckFailedException'' ''lost''))"] d
    by simp
  show ?thesis
    using a b e h c record_at_held record_at_contended
    by auto
qed

text \<open>
  C6. \<^verbatim>\<open>Unlock\<close> on a Mutex with a non-empty owner token, when \<^verbatim>\<open>DeleteItem\<close> returns an
  error that \<open>IsAquireError\<close> does not recognise: that error is returned, and the owner token
  and the lock record are what they were. A retry is meaningful: if the record is the
  Mutex's own, a second \<^verbatim>\<open>Unlock\<close> that reaches the table deletes it and returns nil.
\<close>

theorem C6_Unlock_keeps_owner:
  "uuid (mutex p) \<noteq> [] \<Longrightarrow>
   DeleteItem fault (delete_params (mutex p)) (svc p) = (d, Some er) \<Longrightarrow>
   \<not> IsAquireError (Some er) \<Longrightarrow>
   (\<exists>p'. Unlock fault p = (p', Some er) \<and> uuid (mutex p') = uuid (mutex p) \<and>
      record_at p' = record_at p \<and>
      (record_at p = Some (lease_item (fullname (mutex p)) (uuid (mutex p)) e) \<longrightarrow>
         (\<exists>p''. Unlock None p' = (p'', None) \<and> uuid (mutex p'') = [] \<and> record_at p'' = None)))"
proof -
  assume h: "uuid (mutex p) \<noteq> []"
    and d: "DeleteItem fault (delete_params (mutex p)) (svc p) = (d, Some er)"
    and n: "\<not> IsAquireError (Some er)"
  let ?p' = "\<lparr>mutex = (mutex p)\<lparr>cancelled := True\<rparr>, svc = d, renewing = renewing p\<rparr>"
  from d have "DeleteItem fault (delete_params ((mutex p)\<lparr>cancelled := True\<rparr>)) (svc p) = (d, Some er)"
    by (simp add: delete_params_cancelled)
  from Unlock_result [OF h this] n have u: "Unlock fault p = (?p', Some er)"
    by simp
  have t: "tables d = tables (svc p)"
    using d by (rule DeleteItem_error_tables)
  then have r: "record_at ?p' = record_at p"
    by (simp add: record_at_def)
  have "\<exists>p''. Unlock None ?p' = (p'', None) \<and> uuid (mutex p'') = [] \<and> record_at p'' = None"
    if "record_at p = Some (lease_item (fullname (mutex p)) (uuid (mutex p)) e)"
  proof -
    have "\<exists>p''. Unlock None ?p' = (p'', None) \<and> uuid (mutex p'') = [] \<and>
        cancelled (mutex p'') \<and> record_at p'' = None"
      by (rule Unlock_own [where e = e]) (use h r that in simp_all)
    then show ?thesis by blast
  qed
  with u r show ?thesis
    by auto
qed

text \<open>
  C6 at a sample state: the Mutex that holds its record, a timeout on the first
  \<^verbatim>\<open>Unlock\<close>, and a retry that goes through.
\<close>

theorem C6_Unlock_keeps_owner_witness:
  "uuid (mutex held) \<noteq> [] \<and>
   \<not> IsAquireError (Some (FromSdk (NonAwsErr ''timeout''))) \<and>
   snd (Unlock (Some (NonAwsErr ''timeout'')) held) = Some (FromSdk (NonAwsErr ''timeout'')) \<and>
   uuid (mutex (fst (Unlock (Some (NonAwsErr ''timeout'')) held))) = uuid (mutex held) \<and>
   record_at held = Some (lease_item (fullname (mutex held)) (uuid (mutex held)) 60000006000) \<and>
   snd (Unlock None (fst (Unlock (Some (NonAwsErr ''timeout'')) held))) = None \<and>
   record_at (fst (Unlock None (fst (Unlock (Some (NonAwsErr ''timeout'')) held)))) = None"
proof -
  have h: "uuid (mutex held) \<noteq> []"
    by (simp add: held_def uuid_handle)
  have d: "DeleteItem (Some (NonAwsErr ''timeout'')) (delete_params (mutex held)) (svc held) =
      ((svc held)\<lparr>requests := requests (svc held) @ [DeleteItemRequest (delete_params (mutex held))]\<rparr>,
       Some (FromSdk (NonAwsErr ''timeout'')))"
    by (rule DeleteItem_fault)
  have n: "\<not> IsAquireError (Some (FromSdk (NonAwsErr ''timeout'')))"
    by simp
  show ?thesis
    using C6_Unlock_keeps_owner [OF h d n, of 60000006000] h n record_at_held
    by auto
qed

section \<open>Renewing: the conditional update and the loop\<close>

lemma update_item:
  "put_Item (update_params m now ttl) =
     lease_item (fullname m) (uuid m) (UnixNano (Add now ttl))"
  by (simp add: update_params_def lease_item_def)

lemma update_table: "put_TableName (update_params m now ttl) = TableName m"
  by (simp add: update_params_def)

lemma update_condition_defined:
  "condition_defined (put_ExpressionAttributeNames (update_params m now ttl))
     (put_ExpressionAttributeValues (update_params m now ttl))
     (put_ConditionExpression (update_params m now ttl))"
  by (simp add: update_params_def)

lemma update_condition_absent:
  "\<not> eval_condition (put_ExpressionAttributeNames (update_params m now ttl))
     (put_ExpressionAttributeValues (update_params m now ttl)) Map.empty
     (put_ConditionExpression (update_params m now ttl))"
  by (simp add: update_params_def nameString_def uuidString_def)

lemma update_condition_present:
  "eval_condition (put_ExpressionAttributeNames (update_params m now ttl))
     (put_ExpressionAttributeValues (update_params m now ttl)) (lease_item (fullname m) u e)
     (put_ConditionExpression (update_params m now ttl)) = (u = uuid m)"
  by (simp add: update_params_def nameString_def uuidString_def lease_item_def)

lemma PutItem_update:
  "PutItem None (update_params m now ttl) d =
     (if eval_condition (put_ExpressionAttributeNames (update_params m now ttl))
           (put_ExpressionAttributeValues (update_params m now ttl))
           (stored_item d (TableName m) (fullname m))
           (put_ConditionExpression (update_params m now ttl))
      then (d\<lparr>requests := requests d @ [PutItemRequest (update_params m now ttl)],
              tables := (tables d)(TableName m := (tables d (TableName m))
                 (fullname m \<mapsto> lease_item (fullname m) (uuid m) (UnixNano (Add now ttl))))\<rparr>,
            None)
      else (d\<lparr>requests := requests d @ [PutItemRequest (update_params m now ttl)]\<rparr>,
            Some (FromSdk ConditionalCheckFailed)))"
  by (simp add: PutItem_def Let_def update_condition_defined key_of_lease_item update_table
      update_item)

lemma update_own:
  assumes "uuid (mutex p) \<noteq> []" and "cleanTTL g (mutex p) = Inr ttl"
    and "record_at p = Some (lease_item (fullname (mutex p)) (uuid (mutex p)) e)"
  shows "\<exists>p'. update g now None p = Inr (p', None) \<and> mutex p' = mutex p \<and>
      renewing p' = renewing p \<and>
      record_at p' =
        Some (lease_item (fullname (mutex p)) (uuid (mutex p)) (UnixNano (Add now ttl)))"
  using assms
  by (auto simp: update_def PutItem_update record_at_def stored_item_def
      update_condition_present)

lemma update_lost:
  assumes "uuid (mutex p) \<noteq> []" and "cleanTTL g (mutex p) = Inr ttl"
    and "record_at p = None \<or>
         (record_at p = Some (lease_item (fullname (mutex p)) u e) \<and> u \<noteq> uuid (mutex p))"
  shows "update g now None p = Inl (PanicError (FromSdk ConditionalCheckFailed))"
  using assms
  by (auto simp: update_def PutItem_update record_at_def stored_item_def
      update_condition_present update_condition_absent)



lemma update_keeps_mutex: "update g now fault p = Inr (p', err) \<Longrightarrow> mutex p' = mutex p"
  by (auto simp: update_def split: if_splits sum.splits prod.splits option.splits)

lemma renew_enter_waits:
  "\<not> cancelled (mutex p) \<Longrightarrow> cleanTTL g (mutex p) = Inr ttl \<Longrightarrow> renew_enter g p = Continue p"
  by (simp add: renew_enter_def)

lemma renew_iter_timer:
  assumes "\<not> cancelled (mutex p)" and "cleanTTL g (mutex p) = Inr ttl"
  shows "renew_iter g (TimerFired now fault) p =
     (case update g now fault p of Inl pv \<Rightarrow> Crashed pv | Inr (p', err) \<Rightarrow> Continue p')"
proof (cases "update g now fault p")
  case (Inl pv)
  then show ?thesis
    by (simp add: renew_iter_def)
next
  case (Inr r)
  obtain p' err where r: "r = (p', err)"
    by (cases r)
  from Inr r have "mutex p' = mutex p"
    by (simp add: update_keeps_mutex)
  with assms have "renew_enter g p' = Continue p'"
    by (simp add: renew_enter_waits)
  with Inr r show ?thesis
    by (simp add: renew_iter_def)
qed


lemma held_facts:
  "uuid (mutex held) \<noteq> []" "\<not> cancelled (mutex held)"
  "cleanTTL default_globals (mutex held) = Inr Minute"
  by (simp_all add: held_def uuid_handle handle_fields cleanTTL_handle)

lemma contended_facts:
  "uuid (mutex contended) \<noteq> []" "\<not> cancelled (mutex contended)"
  "cleanTTL default_globals (mutex contended) = Inr Minute"
  "''999'' \<noteq> uuid (mutex contended)"
  by (simp_all add: contended_def uuid_handle handle_fields cleanTTL_handle)



lemma Unlock_keeps_renewing: "Unlock fault p = (p', err) \<Longrightarrow> renewing p' = renewing p"
  by (auto simp: Unlock_def delete_def split: if_splits prod.splits)

text \<open>
  A caller's \<^verbatim>\<open>Unlock\<close> that fails on the network cancels the context and keeps the token.
  The goroutine, which is waiting, then finds the context done and calls \<^verbatim>\<open>Unlock\<close>
  itself: the record is deleted, the token is cleared and the goroutine returns.
\<close>

lemma waiting_goroutine_releases:
  "\<exists>p1 p2. Unlock (Some (NonAwsErr ''timeout'')) held =
            (p1, Some (FromSdk (NonAwsErr ''timeout''))) \<and>
          cancelled (mutex p1) \<and> uuid (mutex p1) = uuid (mutex held) \<and>
          renew_iter default_globals (CtxDone None) p1 = Stopped p2 \<and>
          uuid (mutex p2) = [] \<and> record_at p2 = None \<and> renewing p2 = 0"
proof -
  let ?d = "(svc held)\<lparr>requests := requests (svc held) @
    [DeleteItemRequest (delete_params (mutex held))]\<rparr>"
  let ?p1 = "\<lparr>mutex = (mutex held)\<lparr>cancelled := True\<rparr>, svc = ?d, renewing = renewing held\<rparr>"
  have d: "DeleteItem (Some (NonAwsErr ''timeout''))
      (delete_params ((mutex held)\<lparr>cancelled := True\<rparr>)) (svc held) =
      (?d, Some (FromSdk (NonAwsErr ''timeout'')))"
    by (simp add: DeleteItem_fault delete_params_cancelled)
  have u: "Unlock (Some (NonAwsErr ''timeout'')) held =
      (?p1, Some (FromSdk (NonAwsErr ''timeout'')))"
    using Unlock_result [OF held_facts(1) d] by simp
  have r: "record_at ?p1 =
      Some (lease_item (fullname (mutex ?p1)) (uuid (mutex ?p1)) 60000006000)"
    using record_at_held by (simp add: record_at_def)
  have "uuid (mutex ?p1) \<noteq> []"
    using held_facts(1) by simp
  from Unlock_own [OF this r]
  obtain p' where p': "Unlock None ?p1 = (p', None)" "uuid (mutex p') = []"
    "record_at p' = None"
    by blast
  have n: "renewing p' = 1"
    using Unlock_keeps_renewing [OF p'(1)] by (simp add: held_def)
  have "renew_iter default_globals (CtxDone None) ?p1 = Stopped (p'\<lparr>renewing := renewing p' - 1\<rparr>)"
    by (simp add: renew_iter_def p'(1))
  with u p' n show ?thesis
    by (intro exI [of _ ?p1] exI [of _ "p'\<lparr>renewing := renewing p' - 1\<rparr>"])
      (simp add: record_at_def)
qed

text \<open>
  C3 fails on the code where the key has another owner's record. \<^verbatim>\<open>Lock\<close> at 4000 is refused
  (the record expires at 5000), and the number of renewal goroutines has gone from 0 to
  1: the \<^verbatim>\<open>go\<close> statement comes before \<^verbatim>\<open>create\<close>. The goroutine passes its loop condition
  and waits. When its timer fires half a minute later, the update is refused, since the
  record is not this Mutex's, and \<^verbatim>\<open>update\<close> panics.
\<close>

theorem C3_refused_Lock_starts_renewal:
  "\<exists>p'. Lock default_globals 4000 None contended =
          Inr (p', Some (FromSdk ConditionalCheckFailed)) \<and>
        renewing contended = 0 \<and> renewing p' = 1 \<and>
        renew_loop default_globals [TimerFired 30000004000 None] p' =
          Crashed (PanicError (FromSdk ConditionalCheckFailed)) \<and>
        renew_run default_globals [TimerFired 30000004000 None] p' =
          Crashed (PanicError (FromSdk ConditionalCheckFailed))"
proof -
  have u: "UnixNano 4000 \<le> 5000"
    by (simp add: UnixNano_def)
  from Lock_refused [OF contended_facts(3) record_at_contended u]
  obtain p' where l: "Lock default_globals 4000 None contended =
        Inr (p', Some (FromSdk ConditionalCheckFailed))"
    and m: "mutex p' = mutex contended" and n: "renewing p' = Suc (renewing contended)"
    and t: "tables (svc p') = tables (svc contended)"
    by blast
  have r: "record_at p' = Some (lease_item (fullname (mutex p')) ''999'' 5000)"
    using record_at_contended m t by (simp add: record_at_def)
  have f: "uuid (mutex p') \<noteq> []" "\<not> cancelled (mutex p')"
    "cleanTTL default_globals (mutex p') = Inr Minute" "''999'' \<noteq> uuid (mutex p')"
    using contended_facts m by simp_all
  have "update default_globals 30000004000 None p' =
      Inl (PanicError (FromSdk ConditionalCheckFailed))"
    using f(1) f(3) by (rule update_lost) (use r f(4) in simp)
  then have c: "renew_loop default_globals [TimerFired 30000004000 None] p' =
      Crashed (PanicError (FromSdk ConditionalCheckFailed))"
    by (simp add: renew_iter_timer [OF f(2) f(3)])
  then have "renew_run default_globals [TimerFired 30000004000 None] p' =
      Crashed (PanicError (FromSdk ConditionalCheckFailed))"
    by (simp add: renew_run_def renew_enter_waits [OF f(2) f(3)])
  with l n c show ?thesis
    by (auto simp: contended_def)
qed

lemma renew_iter_own:
  assumes "uuid (mutex p) \<noteq> []" and "\<not> cancelled (mutex p)"
    and "cleanTTL g (mutex p) = Inr ttl"
    and "record_at p = Some (lease_item (fullname (mutex p)) (uuid (mutex p)) e)"
  shows "\<exists>p'. renew_iter g (TimerFired now None) p = Continue p' \<and> mutex p' = mutex p \<and>
      record_at p' =
        Some (lease_item (fullname (mutex p)) (uuid (mutex p)) (UnixNano (Add now ttl)))"
  using update_own [OF assms(1) assms(3) assms(4), of now]
  by (auto simp: renew_iter_timer [OF assms(2) assms(3)])

lemma renewal_expiries_ticks:
  assumes "uuid (mutex p) \<noteq> []" and "\<not> cancelled (mutex p)"
    and "cleanTTL g (mutex p) = Inr ttl"
    and "record_at p = Some (lease_item (fullname (mutex p)) (uuid (mutex p)) e)"
  shows "renewal_expiries g (ticks ts) p = map (\<lambda>t. UnixNano (Add t ttl)) ts"
  using assms
proof (induction ts arbitrary: p e)
  case Nil
  then show ?case by (simp add: ticks_def)
next
  case (Cons t ts)
  from renew_iter_own [OF Cons.prems, of t]
  obtain p' where s: "renew_iter g (TimerFired t None) p = Continue p'"
    and m: "mutex p' = mutex p"
    and r: "record_at p' =
        Some (lease_item (fullname (mutex p)) (uuid (mutex p)) (UnixNano (Add t ttl)))"
    by blast
  have "renewal_expiries g (ticks ts) p' = map (\<lambda>t. UnixNano (Add t ttl)) ts"
    by (rule Cons.IH [where e = "UnixNano (Add t ttl)"]) (use Cons.prems m r in simp_all)
  then show ?case
    using s r by (simp add: ticks_def expires_of_lease_item)
qed

lemma expiries_in_range:
  assumes "\<forall>t \<in> set ts. int64 (Add t ttl)"
  shows "map (\<lambda>t. UnixNano (Add t ttl)) ts = map (\<lambda>t. t + ttl) ts"
  using assms by (simp add: UnixNano_int64) (simp add: Add_def)

text \<open>
  C9, as amended. A Mutex holds its record, written at clock reading \<open>t0\<close> with lease
  duration \<open>ttl\<close>, and the timer fires at the readings \<open>ts\<close>, every request reaching the
  table. Where reading + ttl fits an \<^verbatim>\<open>int64\<close>, every pass succeeds and records the expiry
  reading + ttl. So when the readings increase strictly, each recorded expiry is strictly
  greater than the one recorded before it; when the readings never decrease, no recorded
  expiry is less than the one before it.
\<close>

theorem C9_renewal_expiry_monotone:
  "uuid (mutex p) \<noteq> [] \<Longrightarrow> \<not> cancelled (mutex p) \<Longrightarrow> cleanTTL g (mutex p) = Inr ttl \<Longrightarrow>
   record_at p =
     Some (lease_item (fullname (mutex p)) (uuid (mutex p)) (UnixNano (Add t0 ttl))) \<Longrightarrow>
   \<forall>t \<in> set (t0 # ts). int64 (Add t ttl) \<Longrightarrow>
   renewal_expiries g (ticks ts) p = map (\<lambda>t. UnixNano (Add t ttl)) ts \<and>
   length (renewal_expiries g (ticks ts) p) = length ts \<and>
   (sorted_wrt (<) (t0 # ts) \<longrightarrow>
      sorted_wrt (<) (UnixNano (Add t0 ttl) # renewal_expiries g (ticks ts) p)) \<and>
   (sorted_wrt (\<le>) (t0 # ts) \<longrightarrow>
      sorted_wrt (\<le>) (UnixNano (Add t0 ttl) # renewal_expiries g (ticks ts) p))"
proof -
  assume h: "uuid (mutex p) \<noteq> []" and c: "\<not> cancelled (mutex p)"
    and t: "cleanTTL g (mutex p) = Inr ttl"
    and r: "record_at p =
      Some (lease_item (fullname (mutex p)) (uuid (mutex p)) (UnixNano (Add t0 ttl)))"
    and b: "\<forall>t \<in> set (t0 # ts). int64 (Add t ttl)"
  have e: "renewal_expiries g (ticks ts) p = map (\<lambda>t. UnixNano (Add t ttl)) ts"
    using h c t r by (rule renewal_expiries_ticks)
  have "UnixNano (Add t0 ttl) # renewal_expiries g (ticks ts) p =
      map (\<lambda>t. UnixNano (Add t ttl)) (t0 # ts)"
    by (simp add: e)
  also have "\<dots> = map (\<lambda>t. t + ttl) (t0 # ts)"
    using b by (rule expiries_in_range)
  finally have m: "UnixNano (Add t0 ttl) # renewal_expiries g (ticks ts) p =
      map (\<lambda>t. t + ttl) (t0 # ts)" .
  have s1: "sorted_wrt (<) (map (\<lambda>t. t + ttl) (t0 # ts))" if "sorted_wrt (<) (t0 # ts)"
    using that unfolding sorted_wrt_map by simp
  have s2: "sorted_wrt (\<le>) (map (\<lambda>t. t + ttl) (t0 # ts))" if "sorted_wrt (\<le>) (t0 # ts)"
    using that unfolding sorted_wrt_map by simp
  show ?thesis
    using e s1 s2 unfolding m by simp
qed

text \<open>
  C9 at a sample state: the record written at 6000 with one minute of lease, renewed
  after thirty and after sixty seconds.
\<close>

theorem C9_renewal_expiry_monotone_witness:
  "uuid (mutex held) \<noteq> [] \<and> \<not> cancelled (mutex held) \<and>
   cleanTTL default_globals (mutex held) = Inr Minute \<and>
   record_at held =
     Some (lease_item (fullname (mutex held)) (uuid (mutex held)) (UnixNano (Add 6000 Minute))) \<and>
   int64 (Add 6000 Minute) \<and> int64 (Add 30000006000 Minute) \<and>
   int64 (Add 60000006000 Minute) \<and>
   sorted_wrt (<) [6000, 30000006000, 60000006000 :: int] \<and>
   renewal_expiries default_globals (ticks [30000006000, 60000006000]) held =
     [90000006000, 120000006000] \<and>
   sorted_wrt (<) (60000006000 # renewal_expiries default_globals
     (ticks [30000006000, 60000006000]) held)"
proof -
  have u: "UnixNano (Add 6000 Minute) = 60000006000"
    "UnixNano (Add 30000006000 Minute) = 90000006000"
    "UnixNano (Add 60000006000 Minute) = 120000006000"
    by (simp_all add: UnixNano_def Add_def Minute_def)
  have r: "record_at held =
     Some (lease_item (fullname (mutex held)) (uuid (mutex held)) (UnixNano (Add 6000 Minute)))"
    using record_at_held by (simp add: u)
  have b: "\<forall>t \<in> set [6000, 30000006000, 60000006000]. int64 (Add t Minute)"
    by (simp add: int64_def Add_def Minute_def)
  show ?thesis
    using C9_renewal_expiry_monotone [OF held_facts r b] held_facts r b
    by (simp add: u)
qed

lemma long_lease_facts:
  "uuid (mutex long_lease) \<noteq> []" "\<not> cancelled (mutex long_lease)"
  "cleanTTL default_globals (mutex long_lease) = Inr 9223371986854775807"
  by (simp_all add: long_lease_def uuid_handle handle_fields cleanTTL_def)

lemma record_at_long_lease:
  "record_at long_lease =
     Some (lease_item (fullname (mutex long_lease)) (uuid (mutex long_lease))
       9223371986854781807)"
  by (simp add: record_at_def long_lease_def service_with_def handle_fields)

text \<open>
  C9 as stated fails, in two ways. The record of the sample Mutex was written at 6000 with
  one minute of lease. If the wall clock reads 60000006000 at the first renewal and, set
  back, 30000006000 at the second, both renewals succeed and the recorded expiry falls
  from 120000006000 to 90000006000: \<^verbatim>\<open>update\<close> writes its own reading + ttl and never looks
  at the stored expiry. And with a lease of 9223371986854775807 nanoseconds, written at
  6000, the renewal at the later reading 60000006000 succeeds and records a negative
  expiry: reading + ttl no longer fits an \<^verbatim>\<open>int64\<close>.
\<close>

theorem C9_expiry_decreases_counterexample:
  "record_at held =
     Some (lease_item (fullname (mutex held)) (uuid (mutex held)) 60000006000) \<and>
   renewal_expiries default_globals (ticks [60000006000, 30000006000]) held =
     [120000006000, 90000006000] \<and>
   \<not> ((120000006000 :: int) \<le> 90000006000) \<and>
   record_at long_lease =
     Some (lease_item (fullname (mutex long_lease)) (uuid (mutex long_lease))
       9223371986854781807) \<and>
   UnixNano (Add 6000 9223371986854775807) = 9223371986854781807 \<and>
   (6000 :: int) < 60000006000 \<and>
   renewal_expiries default_globals (ticks [60000006000]) long_lease =
     [- 9223372026854769809] \<and>
   \<not> ((9223371986854781807 :: int) \<le> - 9223372026854769809)"
proof -
  have a: "renewal_expiries default_globals (ticks [60000006000, 30000006000]) held =
      [120000006000, 90000006000]"
    using renewal_expiries_ticks [OF held_facts record_at_held, of "[60000006000, 30000006000]"]
    by (simp add: UnixNano_def Add_def Minute_def)
  have b: "renewal_expiries default_globals (ticks [60000006000]) long_lease =
      [- 9223372026854769809]"
    using renewal_expiries_ticks [OF long_lease_facts record_at_long_lease, of "[60000006000]"]
    by (simp add: UnixNano_def Add_def)
  have c: "UnixNano (Add 6000 9223371986854775807) = 9223371986854781807"
    by (simp add: UnixNano_def Add_def)
  show ?thesis
    using a b c record_at_held record_at_long_lease by simp
qed

section \<open>The owner token, the lease duration and the errors of Lock\<close>

lemma PutItem_error_sdk: "PutItem fault params d = (d', Some er) \<Longrightarrow> \<exists>s. er = FromSdk s"
  by (auto simp: PutItem_def Let_def split: option.splits if_splits)

lemma Lock_error_sdk: "Lock g now fault p = Inr (p', Some er) \<Longrightarrow> \<exists>s. er = FromSdk s"
  by (auto simp: Lock_def create_def split: sum.splits prod.splits dest: PutItem_error_sdk)

lemma Lock_keeps_mutex: "Lock g now fault p = Inr (p', err) \<Longrightarrow> mutex p' = mutex p"
  by (auto simp: Lock_def create_def split: sum.splits prod.splits)

lemma PutItem_create_success:
  "PutItem fault (create_params m now ttl) d = (d', None) \<Longrightarrow>
   tables d' (TableName m) (fullname m) =
     Some (lease_item (fullname m) (uuid m) (UnixNano (Add now ttl)))"
  by (auto simp: PutItem_def Let_def create_item key_of_lease_item create_table
      split: option.splits if_splits)

lemma Lock_success_record:
  "Lock g now fault p = Inr (p', None) \<Longrightarrow> cleanTTL g (mutex p) = Inr ttl \<Longrightarrow>
   record_at p' =
     Some (lease_item (fullname (mutex p)) (uuid (mutex p)) (UnixNano (Add now ttl)))"
  by (auto simp: Lock_def create_def record_at_def split: sum.splits prod.splits
      dest: PutItem_create_success)

lemma Lock_success_owner:
  assumes "Lock g now fault p = Inr (p', None)"
  shows "owner_after (Lock g now fault p) = Some (uuid (mutex p))"
proof -
  from assms obtain ttl where "cleanTTL g (mutex p) = Inr ttl"
    by (auto simp: Lock_def create_def split: sum.splits)
  from Lock_success_record [OF assms this] show ?thesis
    by (simp add: owner_after_def assms owner_of_lease_item)
qed

text \<open>
  C7, as amended. The owner token is made once, by \<^verbatim>\<open>New\<close>, from the clock reading at
  construction. \<^verbatim>\<open>Lock\<close> does not change any field of the Mutex, and the record that a
  successful \<^verbatim>\<open>Lock\<close> writes carries the token that the Mutex had before the call.
\<close>

theorem C7_owner_token_set_by_New:
  "uuid (New g ctx nm t0) = FormatInt (UnixNano t0) \<and>
   (Lock g now fault p = Inr (p', err) \<longrightarrow> mutex p' = mutex p) \<and>
   (Lock g now fault p = Inr (p', None) \<longrightarrow>
      owner_after (Lock g now fault p) = Some (uuid (mutex p)))"
  using Lock_keeps_mutex [of g now fault p p' err] Lock_success_owner [of g now fault p p']
  by (simp add: New_def)

lemma fresh_facts:
  "mutex fresh = handle" "cleanTTL default_globals (mutex fresh) = Inr Minute"
  by (simp_all add: fresh_def cleanTTL_handle)

text \<open>
  C7 at a sample state: the Mutex made at 1000 and locked at 6000.
\<close>

theorem C7_owner_token_set_by_New_witness:
  "(\<exists>p'. Lock default_globals 6000 None fresh = Inr (p', None) \<and> mutex p' = mutex fresh) \<and>
   owner_after (Lock default_globals 6000 None fresh) =
     Some (uuid (New default_globals None ''job-7'' 1000)) \<and>
   uuid (New default_globals None ''job-7'' 1000) = FormatInt (UnixNano 1000)"
proof -
  from Lock_granted [OF fresh_facts(2), of "[]" 0 6000] record_at_fresh
  obtain p' where l: "Lock default_globals 6000 None fresh = Inr (p', None)"
    by blast
  show ?thesis
    using C7_owner_token_set_by_New [of default_globals None "''job-7''" 1000 6000 None fresh p' None] l
    by (simp add: fresh_facts handle_def)
qed

text \<open>
  C7 as stated fails: the Mutex made at clock reading 1000 writes the token \<open>1000\<close> when
  it acquires at 6000 and when it acquires at 9000. The token is the one of the
  construction; a token made at the acquisition would be \<open>6000\<close> or \<open>9000\<close>.
\<close>

theorem C7_same_token_counterexample:
  "uuid handle = ''1000'' \<and>
   error_of (Lock default_globals 6000 None fresh) = Inr None \<and>
   owner_after (Lock default_globals 6000 None fresh) = Some ''1000'' \<and>
   error_of (Lock default_globals 9000 None fresh) = Inr None \<and>
   owner_after (Lock default_globals 9000 None fresh) = Some ''1000'' \<and>
   FormatInt (UnixNano 6000) = ''6000'' \<and> FormatInt (UnixNano 9000) = ''9000''"
proof -
  from Lock_granted [OF fresh_facts(2), of "[]" 0 6000] record_at_fresh
  obtain p1 where l1: "Lock default_globals 6000 None fresh = Inr (p1, None)"
    by blast
  from Lock_granted [OF fresh_facts(2), of "[]" 0 9000] record_at_fresh
  obtain p2 where l2: "Lock default_globals 9000 None fresh = Inr (p2, None)"
    by blast
  have f: "FormatInt (UnixNano 6000) = ''6000''" "FormatInt (UnixNano 9000) = ''9000''"
    by (simp_all add: UnixNano_def FormatInt_def digits.simps digit_table)
  show ?thesis
    using Lock_success_owner [OF l1] Lock_success_owner [OF l2] l1 l2 f
    by (simp add: error_of_def fresh_facts uuid_handle)
qed





lemma IsAquireError_iff:
  "IsAquireError err = (\<exists>msg. err = Some (FromSdk (AwsErr ''ConditionalCheckFailedException'' msg)))"
proof (cases err)
  case None
  then show ?thesis by simp
next
  case (Some er)
  show ?thesis
  proof (cases er)
    case (FromSdk s)
    with Some show ?thesis by (cases s) auto
  next
    case ErrConflict
    with Some show ?thesis by simp
  qed
qed

text \<open>
  C10. \<^verbatim>\<open>Lock\<close> never returns \<^verbatim>\<open>ErrConflict\<close>. When the key has a record that has not
  expired, it returns the conditional-check-failed error of the service as it is; an
  error of the client is returned as it is too. \<open>IsAquireError\<close> holds exactly of the
  errors that implement \<^verbatim>\<open>awserr.Error\<close> with the code
  \<^verbatim>\<open>ConditionalCheckFailedException\<close>: not of nil and not of \<^verbatim>\<open>ErrConflict\<close>.
\<close>

theorem C10_Lock_returns_raw_error:
  "error_of (Lock g now fault p) \<noteq> Inr (Some ErrConflict) \<and>
   (cleanTTL g (mutex p) = Inr ttl \<and>
    record_at p = Some (lease_item (fullname (mutex p)) u e) \<and> UnixNano now \<le> e \<longrightarrow>
      error_of (Lock g now None p) = Inr (Some (FromSdk ConditionalCheckFailed))) \<and>
   (cleanTTL g (mutex p) = Inr ttl \<longrightarrow>
      error_of (Lock g now (Some f) p) = Inr (Some (FromSdk f))) \<and>
   IsAquireError err =
     (\<exists>msg. err = Some (FromSdk (AwsErr ''ConditionalCheckFailedException'' msg))) \<and>
   \<not> IsAquireError None \<and> \<not> IsAquireError (Some ErrConflict)"
proof (intro conjI impI)
  show "error_of (Lock g now fault p) \<noteq> Inr (Some ErrConflict)"
  proof
    assume a: "error_of (Lock g now fault p) = Inr (Some ErrConflict)"
    then obtain p' where "Lock g now fault p = Inr (p', Some ErrConflict)"
      by (cases "Lock g now fault p") (auto simp: error_of_def)
    from Lock_error_sdk [OF this] show False
      by simp
  qed
  {
    assume "cleanTTL g (mutex p) = Inr ttl \<and>
      record_at p = Some (lease_item (fullname (mutex p)) u e) \<and> UnixNano now \<le> e"
    then show "error_of (Lock g now None p) = Inr (Some (FromSdk ConditionalCheckFailed))"
      using Lock_refused [of g p ttl u e now] by (auto simp: error_of_def)
  }
  {
    assume "cleanTTL g (mutex p) = Inr ttl"
    then show "error_of (Lock g now (Some f) p) = Inr (Some (FromSdk f))"
      by (simp add: error_of_def Lock_def create_def PutItem_fault)
  }
  show "IsAquireError err =
     (\<exists>msg. err = Some (FromSdk (AwsErr ''ConditionalCheckFailedException'' msg)))"
    by (rule IsAquireError_iff)
  show "\<not> IsAquireError None" "\<not> IsAquireError (Some ErrConflict)"
    by simp_all
qed

text \<open>
  C10 at a sample state: the Mutex facing another owner's record, with and without a
  timeout.
\<close>

theorem C10_Lock_returns_raw_error_witness:
  "cleanTTL default_globals (mutex contended) = Inr Minute \<and>
   record_at contended = Some (lease_item (fullname (mutex contended)) ''999'' 5000) \<and>
   UnixNano 4000 \<le> 5000 \<and>
   error_of (Lock default_globals 4000 None contended) =
     Inr (Some (FromSdk ConditionalCheckFailed)) \<and>
   IsAquireError (Some (FromSdk ConditionalCheckFailed)) \<and>
   error_of (Lock default_globals 4000 (Some (NonAwsErr ''timeout'')) contended) =
     Inr (Some (FromSdk (NonAwsErr ''timeout''))) \<and>
   \<not> IsAquireError (Some (FromSdk (NonAwsErr ''timeout'')))"
proof -
  have u: "UnixNano 4000 \<le> 5000"
    by (simp add: UnixNano_def)
  show ?thesis
    using C10_Lock_returns_raw_error [of default_globals 4000 None contended Minute "''999''" 5000
        "NonAwsErr ''timeout''" "Some (FromSdk ConditionalCheckFailed)"]
      contended_facts record_at_contended u
    by (simp add: ConditionalCheckFailed_def)
qed

end
